theory Spec2Isabelle
  imports Complex_Main
begin

section \<open>Values of the JavaScript runtime\<close>

text \<open>
  The server is TypeScript; the payloads it receives (tool arguments, response bodies of the
  upstream API) are untyped at run time. They are modelled by the datatype \<open>json\<close>, with
  \<open>JUndefined\<close> for an absent property or argument. Numbers are rationals: the rounding of
  a literal to an IEEE double is outside the model. An object is an association list in
  which the first binding of a key is the one that is read.
\<close>

datatype json =
    JUndefined
  | JNull
  | JBool bool
  | JNum rat
  | JStr string
  | JArr "json list"
  | JObj "(string \<times> json) list"

text \<open>\<open>!!v\<close>: the truthiness used by \<open>if (v)\<close>, \<open>!v\<close>, \<open>a && b\<close> and \<open>a || b\<close>.\<close>

fun truthy :: "json \<Rightarrow> bool" where
  "truthy JUndefined = False"
| "truthy JNull = False"
| "truthy (JBool b) = b"
| "truthy (JNum n) = (n \<noteq> 0)"
| "truthy (JStr s) = (s \<noteq> [])"
| "truthy (JArr xs) = True"
| "truthy (JObj kvs) = True"

text \<open>Reading a property of \<open>null\<close> or \<open>undefined\<close> throws a TypeError.\<close>

fun nullish :: "json \<Rightarrow> bool" where
  "nullish JUndefined = True"
| "nullish JNull = True"
| "nullish v = False"

text \<open>
  \<open>v.k\<close> for a value that is neither \<open>null\<close> nor \<open>undefined\<close>, and for the data
  properties the server reads (none of them is a built-in property of an array, a string, a
  number or a boolean): an object gives the bound value, everything else \<open>undefined\<close>.
\<close>

fun member :: "json \<Rightarrow> string \<Rightarrow> json" where
  "member (JObj kvs) k = (case map_of kvs k of Some v \<Rightarrow> v | None \<Rightarrow> JUndefined)"
| "member v k = JUndefined"

text \<open>\<open>a || b\<close>\<close>

definition js_or :: "json \<Rightarrow> json \<Rightarrow> json" where
  "js_or a b = (if truthy a then a else b)"

text \<open>\<open>xs.join(sep)\<close> on an array of strings.\<close>

fun join :: "string \<Rightarrow> string list \<Rightarrow> string" where
  "join sep [] = []"
| "join sep [x] = x"
| "join sep (x # y # ys) = x @ sep @ join sep (y # ys)"

text \<open>
  The string a template literal \<open>`${v}`\<close> puts for a value. How a number is printed
  (\<open>Number.prototype.toString\<close>) belongs to the runtime, not to the repository: it is the
  parameter \<open>num\<close>.
\<close>

fun to_string :: "(rat \<Rightarrow> string) \<Rightarrow> json \<Rightarrow> string" where
  "to_string num JUndefined = ''undefined''"
| "to_string num JNull = ''null''"
| "to_string num (JBool b) = (if b then ''true'' else ''false'')"
| "to_string num (JNum n) = num n"
| "to_string num (JStr s) = s"
| "to_string num (JArr xs) =
     join '','' (map (\<lambda>x. if nullish x then [] else to_string num x) xs)"
| "to_string num (JObj kvs) = ''[object Object]''"

section \<open>Errors\<close>

datatype ErrorCode = InvalidParams | MethodNotFound | InternalError

datatype http_method = GET | POST

text \<open>
  The request configuration of an outbound call; \<open>isRetry\<close> is the flag \<open>__isRetry\<close> that
  the source adds to \<open>InternalAxiosRequestConfig\<close>, \<open>verb\<close> the HTTP method and \<open>body\<close>
  the request's \<open>data\<close>.
\<close>

record config =
  verb :: http_method
  url :: string
  params :: json
  body :: json
  Authorization :: "string option"
  isRetry :: bool

text \<open>
  What the source can throw. \<open>McpError code message\<close> keeps the two arguments of the
  constructor. \<open>AxiosError status data message config\<close> has \<open>error.response?.status\<close>,
  \<open>error.response?.data\<close>, \<open>error.message\<close> and \<open>error.config\<close>. A \<open>TypeError\<close> is
  raised by the runtime when a property of \<open>null\<close> or \<open>undefined\<close> is read or a value
  that is not a function is called; its message is the engine's, the model fixes one.
\<close>

datatype js_error =
    McpError ErrorCode string
  | AxiosError "nat option" json string "config option"
  | TypeError string

text \<open>The JSON-RPC numbers of the SDK's \<open>ErrorCode\<close>, as a template prints them.\<close>

fun code_number :: "ErrorCode \<Rightarrow> string" where
  "code_number InvalidParams = ''-32602''"
| "code_number MethodNotFound = ''-32601''"
| "code_number InternalError = ''-32603''"

text \<open>
  \<open>error.message\<close>. The constructor of the SDK's \<open>McpError\<close> builds it as
  \<open>`MCP error ${code}: ${message}`\<close>.
\<close>

fun message :: "js_error \<Rightarrow> string" where
  "message (McpError c m) = ''MCP error '' @ code_number c @ '': '' @ m"
| "message (AxiosError st d m cfg) = m"
| "message (TypeError m) = m"

fun isAxiosError :: "js_error \<Rightarrow> bool" where
  "isAxiosError (AxiosError st d m cfg) = True"
| "isAxiosError e = False"

section \<open>Documentation URLs\<close>

definition VALID_SITES :: "string list" where
  "VALID_SITES = [''MLA'', ''MLB'', ''MLM'', ''MLU'', ''MLC'', ''MCO'', ''MPE'']"

definition SITE_DOMAINS :: "(string \<times> string) list" where
  "SITE_DOMAINS =
     [(''MLA'', ''www.mercadopago.com.ar''),
      (''MLB'', ''www.mercadopago.com.br''),
      (''MLM'', ''www.mercadopago.com.mx''),
      (''MLU'', ''www.mercadopago.com.uy''),
      (''MLC'', ''www.mercadopago.cl''),
      (''MCO'', ''www.mercadopago.com.co''),
      (''MPE'', ''www.mercadopago.com.pe'')]"

text \<open>
  \<open>buildDocumentationUrl(siteDomain, language, path)\<close>. The guard \<open>!siteDomain || !language\<close>
  holds for the empty string and for \<open>undefined\<close>; the caller passes \<open>undefined\<close> as the
  empty string. \<open>path || ''\<close> is \<open>path\<close> itself for every string.
\<close>

definition buildDocumentationUrl :: "string \<Rightarrow> string \<Rightarrow> string \<Rightarrow> js_error + string" where
  "buildDocumentationUrl siteDomain language path =
     (if siteDomain = [] \<or> language = [] then
        Inl (McpError InvalidParams ''Missing required parameters for URL construction'')
      else Inr (''https://'' @ siteDomain @ ''/developers/'' @ language
                @ (if path \<noteq> [] then path else [])))"

text \<open>\<open>SITE_DOMAINS[siteId]\<close>, with \<open>undefined\<close> as the empty string.\<close>

definition site_domain :: "string \<Rightarrow> string" where
  "site_domain siteId = (case map_of SITE_DOMAINS siteId of Some d \<Rightarrow> d | None \<Rightarrow> [])"

section \<open>The upstream services and the state of the server\<close>

text \<open>
  The token endpoint answers an exchange with an \<open>AuthResponse\<close>, of which only
  \<open>access_token\<close> is used (\<open>expires_in\<close> is logged), or the request fails with a message.
\<close>

datatype auth_outcome = AuthOk string | AuthFail string

text \<open>
  The API answers a request with a status and a body, or not at all (a network failure
  with its message).
\<close>

datatype http_outcome = Reply nat json | NoReply string

text \<open>
  The environment is any behaviour of the two services: the answer to the \<open>n\<close>-th token
  exchange and the answer to the \<open>n\<close>-th API request, which may depend on the request.
  \<open>number_toString\<close> is the runtime's printing of numbers.
\<close>

record upstream =
  auth_reply :: "nat \<Rightarrow> auth_outcome"
  api_reply :: "nat \<Rightarrow> config \<Rightarrow> http_outcome"
  number_toString :: "rat \<Rightarrow> string"

text \<open>What the server does that is visible outside it, in the order it happens.\<close>

datatype event =
    TokenExchange auth_outcome
  | TokenClear
  | ApiCall config http_outcome

fun is_exchange :: "event \<Rightarrow> bool" where
  "is_exchange (TokenExchange r) = True"
| "is_exchange e = False"

fun is_api_call :: "event \<Rightarrow> bool" where
  "is_api_call (ApiCall c r) = True"
| "is_api_call e = False"

fun is_retried_call :: "event \<Rightarrow> bool" where
  "is_retried_call (ApiCall c r) = isRetry c"
| "is_retried_call e = False"

text \<open>
  \<open>accessToken\<close> is the field of \<open>AuthService\<close>, \<open>requestCount\<close> the field of
  \<open>DemoMercadoPagoServer\<close>; \<open>events\<close> records the token exchanges, token clears and API
  requests made so far. Logging is not modelled.
\<close>

record state =
  accessToken :: "string option"
  requestCount :: nat
  events :: "event list"

definition authCalls :: "state \<Rightarrow> nat" where
  "authCalls s = length (filter is_exchange (events s))"

definition apiCalls :: "state \<Rightarrow> nat" where
  "apiCalls s = length (filter is_api_call (events s))"

definition emit :: "event \<Rightarrow> state \<Rightarrow> state" where
  "emit e s = s\<lparr>events := events s @ [e]\<rparr>"

section \<open>AuthService\<close>

text \<open>
  \<open>getAccessToken\<close>: \<open>if (this.accessToken) return this.accessToken\<close> is a truthiness
  test, so \<open>null\<close> and the empty string both lead to the exchange. Every failure of the
  exchange is rethrown as an \<open>McpError\<close> with code \<open>InternalError\<close>.
\<close>

definition getAccessToken :: "upstream \<Rightarrow> state \<Rightarrow> (js_error + string) \<times> state" where
  "getAccessToken w s =
     (if accessToken s \<noteq> None \<and> accessToken s \<noteq> Some [] then (Inr (the (accessToken s)), s)
      else
        (let response = auth_reply w (authCalls s);
             s1 = emit (TokenExchange response) s
         in case response of
              AuthOk access_token \<Rightarrow> (Inr access_token, s1\<lparr>accessToken := Some access_token\<rparr>)
            | AuthFail msg \<Rightarrow>
                (Inl (McpError InternalError (''MercadoPago Auth error: '' @ msg)), s1)))"

definition clearToken :: "state \<Rightarrow> state" where
  "clearToken s = emit TokenClear (s\<lparr>accessToken := None\<rparr>)"

section \<open>The request pipeline\<close>

record response =
  status :: nat
  data :: json

fun error_status :: "js_error \<Rightarrow> nat option" where
  "error_status (AxiosError st d m cfg) = st"
| "error_status e = None"

fun error_config :: "js_error \<Rightarrow> config option" where
  "error_config (AxiosError st d m cfg) = cfg"
| "error_config e = None"

text \<open>
  The HTTP adapter of axios settles a request by its outcome: a status in \<open>[200, 300)\<close>
  resolves, any other status and a network failure reject with an \<open>AxiosError\<close> that
  carries the configuration of the request.
\<close>

definition settle :: "upstream \<Rightarrow> config \<Rightarrow> http_outcome \<Rightarrow> js_error + response" where
  "settle w cfg outcome =
     (case outcome of
        Reply st d \<Rightarrow>
          (if 200 \<le> st \<and> st < 300 then Inr \<lparr>status = st, data = d\<rparr>
           else Inl (AxiosError (Some st) d
                  (''Request failed with status code '' @ number_toString w (of_nat st))
                  (Some cfg)))
      | NoReply msg \<Rightarrow> Inl (AxiosError None JUndefined msg (Some cfg)))"

text \<open>The request is sent with the configuration the request interceptors return.\<close>

definition dispatchRequest :: "upstream \<Rightarrow> config \<Rightarrow> state \<Rightarrow> (js_error + response) \<times> state" where
  "dispatchRequest w cfg s =
     (let outcome = api_reply w (apiCalls s) cfg
      in (settle w cfg outcome, emit (ApiCall cfg outcome) s))"

text \<open>The auth interceptor's \<open>config.headers.Authorization = `Bearer ${token}`\<close>.\<close>

definition authorize :: "string \<Rightarrow> config \<Rightarrow> config" where
  "authorize token cfg = cfg\<lparr>Authorization := Some (''Bearer '' @ token)\<rparr>"

lemma getAccessToken_error_config:
  "getAccessToken w s = (Inl e, s1) \<Longrightarrow> error_config e = None"
  by (auto simp: getAccessToken_def Let_def split: if_splits auth_outcome.splits)

lemma dispatchRequest_error_config:
  "dispatchRequest w cfg s = (Inl e, s1) \<Longrightarrow> error_config e = Some cfg"
  by (auto simp: dispatchRequest_def settle_def Let_def split: if_splits http_outcome.splits)

definition retry_rank :: "config option \<Rightarrow> nat" where
  "retry_rank c = (case c of None \<Rightarrow> 0 | Some cfg \<Rightarrow> if isRetry cfg then 0 else 2)"

text \<open>
  \<open>api\<close> is a call of the axios instance \<open>this.api\<close>: the auth interceptor
  (\<open>getAccessToken\<close>, then the bearer header), the request, then the response
  interceptors. A rejection anywhere in the chain, also of the auth interceptor, reaches
  the rejection handler \<open>response_rejected\<close> (lines 224-245), which on a 401 of a request
  not yet marked clears the token, marks the configuration and calls \<open>this.api(config)\<close>
  again, and otherwise rethrows the error.
\<close>

function api :: "upstream \<Rightarrow> config \<Rightarrow> state \<Rightarrow> (js_error + response) \<times> state"
  and response_rejected :: "upstream \<Rightarrow> js_error \<Rightarrow> state \<Rightarrow> (js_error + response) \<times> state"
where
  "api w cfg s =
     (case getAccessToken w s of
        (Inl e, s1) \<Rightarrow> response_rejected w e s1
      | (Inr token, s1) \<Rightarrow>
          (case dispatchRequest w (authorize token cfg) s1 of
             (Inr r, s2) \<Rightarrow> (Inr r, s2)
           | (Inl e, s2) \<Rightarrow> response_rejected w e s2))"
| "response_rejected w error s =
     (if error_status error = Some 401 \<and> error_config error \<noteq> None then
        (if \<not> isRetry (the (error_config error)) then
           api w ((the (error_config error))\<lparr>isRetry := True\<rparr>) (clearToken s)
         else (Inl error, s))
      else (Inl error, s))"
  by pat_completeness auto


termination
proof (relation "measure (\<lambda>x. case x of
          Inl (w, cfg, s) \<Rightarrow> retry_rank (Some cfg) + 1
        | Inr (w, e, s) \<Rightarrow> retry_rank (error_config e))", goal_cases)
  case 1
  show ?case by simp
next
  case (2 w cfg s x y a)
  then have "error_config a = None"
    using getAccessToken_error_config [of w s a y] by simp
  then show ?case by (simp add: retry_rank_def)
next
  case (3 w cfg s x y b xa ya a)
  then have "error_config a = Some (authorize b cfg)"
    using dispatchRequest_error_config [of w _ y a ya] by simp
  then show ?case by (simp add: retry_rank_def authorize_def)
next
  case (4 w error s)
  then show ?case by (auto simp: retry_rank_def)
qed

section \<open>Tool responses\<close>

text \<open>
  An item \<open>{type: 'text', text: t}\<close> is \<open>Text t\<close>. \<open>isError\<close> is \<open>None\<close> where the object
  literal of the source has no \<open>isError\<close> property.
\<close>

datatype content_item = Text string

record ToolResponse =
  content :: "content_item list"
  isError :: "bool option"

definition text_response :: "string \<Rightarrow> ToolResponse" where
  "text_response t = \<lparr>content = [Text t], isError = None\<rparr>"

definition error_response :: "string \<Rightarrow> ToolResponse" where
  "error_response t = \<lparr>content = [Text t], isError = Some True\<rparr>"

definition dquote :: string where
  "dquote = [CHR 0x22]"

text \<open>The separator \<open>'\n\n---\n\n'\<close> of the three \<open>join\<close> calls.\<close>

definition rule_sep :: string where
  "rule_sep = ''\<newline>\<newline>---\<newline>\<newline>''"

text \<open>\<open>xs.map(f)\<close> where \<open>f\<close> may throw: the first exception ends the loop.\<close>

fun map_throwing :: "('a \<Rightarrow> js_error + 'b) \<Rightarrow> 'a list \<Rightarrow> js_error + 'b list" where
  "map_throwing f [] = Inr []"
| "map_throwing f (x # xs) =
     (case f x of
        Inl e \<Rightarrow> Inl e
      | Inr y \<Rightarrow> (case map_throwing f xs of Inl e \<Rightarrow> Inl e | Inr ys \<Rightarrow> Inr (y # ys)))"

text \<open>
  \<open>data.map(f)\<close> on a response body: only an array has a \<open>map\<close> method, anything else
  throws a TypeError.
\<close>

definition data_map :: "(json \<Rightarrow> js_error + 'b) \<Rightarrow> json \<Rightarrow> js_error + 'b list" where
  "data_map f d =
     (case d of
        JArr xs \<Rightarrow> map_throwing f xs
      | JUndefined \<Rightarrow> Inl (TypeError ''Cannot read properties of undefined'')
      | JNull \<Rightarrow> Inl (TypeError ''Cannot read properties of null'')
      | _ \<Rightarrow> Inl (TypeError ''map is not a function''))"

section \<open>The tool handlers\<close>

definition new_request :: "http_method \<Rightarrow> string \<Rightarrow> json \<Rightarrow> json \<Rightarrow> config" where
  "new_request m u p b =
     \<lparr>verb = m, url = u, params = p, body = b, Authorization = None, isRetry = False\<rparr>"

text \<open>\<open>args?.email\<close>\<close>

definition optional_member :: "json \<Rightarrow> string \<Rightarrow> json" where
  "optional_member v k = (if nullish v then JUndefined else member v k)"

definition create_customer_fallback :: ToolResponse where
  "create_customer_fallback = text_response ''No document types found. Try again later.''"

text \<open>
  The \<open>try\<close> block of \<open>handleCreateCustomer\<close>: the POST, then the template with
  \<open>response.data.user_id\<close>, which throws only when \<open>response.data\<close> is \<open>null\<close> or
  \<open>undefined\<close>.
\<close>

definition handleCreateCustomer_try ::
  "upstream \<Rightarrow> json \<Rightarrow> state \<Rightarrow> (js_error + ToolResponse) \<times> state" where
  "handleCreateCustomer_try w args s =
     (case api w (new_request POST ''https://api.mercadopago.com/v1/customers'' JUndefined
                    (JObj [(''email'', optional_member args ''email'')])) s of
        (Inl e, s1) \<Rightarrow> (Inl e, s1)
      | (Inr response, s1) \<Rightarrow>
          (if nullish (data response) then
             (Inl (TypeError ''Cannot read properties of undefined (reading user_id)''), s1)
           else
             (Inr (text_response (''Customer created successfully with id: ''
                @ to_string (number_toString w) (member (data response) ''user_id''))), s1)))"

text \<open>\<open>catch (e) { console.log(e) }\<close>, then the \<open>return\<close> after the \<open>try\<close> statement.\<close>

definition handleCreateCustomer ::
  "upstream \<Rightarrow> json \<Rightarrow> state \<Rightarrow> (js_error + ToolResponse) \<times> state" where
  "handleCreateCustomer w args s =
     (case handleCreateCustomer_try w args s of
        (Inr result, s1) \<Rightarrow> (Inr result, s1)
      | (Inl e, s1) \<Rightarrow> (Inr create_customer_fallback, s1))"

definition document_type_section :: "(rat \<Rightarrow> string) \<Rightarrow> json \<Rightarrow> js_error + string" where
  "document_type_section num m =
     (if nullish m then Inl (TypeError ''Cannot read properties of undefined (reading name)'')
      else Inr (''## '' @ to_string num (member m ''name'') @ '' \<newline> id: ''
                @ to_string num (member m ''payment_type_id'') @ '' \<newline>type: ''
                @ to_string num (member m ''type'')))"

definition handleDocumentTypes_try ::
  "upstream \<Rightarrow> state \<Rightarrow> (js_error + ToolResponse) \<times> state" where
  "handleDocumentTypes_try w s =
     (case api w (new_request GET ''https://api.mercadopago.com/v1/identification_types''
                    JUndefined JUndefined) s of
        (Inl e, s1) \<Rightarrow> (Inl e, s1)
      | (Inr response, s1) \<Rightarrow>
          (case data_map (document_type_section (number_toString w)) (data response) of
             Inl e \<Rightarrow> (Inl e, s1)
           | Inr sections \<Rightarrow> (Inr (text_response (join rule_sep sections)), s1)))"

definition handleDocumentTypes ::
  "upstream \<Rightarrow> state \<Rightarrow> (js_error + ToolResponse) \<times> state" where
  "handleDocumentTypes w s =
     (case handleDocumentTypes_try w s of
        (Inr result, s1) \<Rightarrow> (Inr result, s1)
      | (Inl e, s1) \<Rightarrow>
          (Inr (text_response ''No document types found. Try again later.''), s1))"

definition payment_method_section :: "(rat \<Rightarrow> string) \<Rightarrow> json \<Rightarrow> js_error + string" where
  "payment_method_section num m =
     (if nullish m then Inl (TypeError ''Cannot read properties of undefined (reading name)'')
      else Inr (''## '' @ to_string num (member m ''name'') @ '' \<newline> id: ''
                @ to_string num (member m ''payment_type_id'') @ '' \<newline>thumbnail: ''
                @ to_string num (member m ''thumbnail'')))"

definition handlePaymentsMethods_try ::
  "upstream \<Rightarrow> state \<Rightarrow> (js_error + ToolResponse) \<times> state" where
  "handlePaymentsMethods_try w s =
     (case api w (new_request GET ''https://api.mercadopago.com/v1/payment_methods''
                    JUndefined JUndefined) s of
        (Inl e, s1) \<Rightarrow> (Inl e, s1)
      | (Inr response, s1) \<Rightarrow>
          (case data_map (payment_method_section (number_toString w)) (data response) of
             Inl e \<Rightarrow> (Inl e, s1)
           | Inr sections \<Rightarrow> (Inr (text_response (join rule_sep sections)), s1)))"

definition handlePaymentsMethods ::
  "upstream \<Rightarrow> state \<Rightarrow> (js_error + ToolResponse) \<times> state" where
  "handlePaymentsMethods w s =
     (case handlePaymentsMethods_try w s of
        (Inr result, s1) \<Rightarrow> (Inr result, s1)
      | (Inl e, s1) \<Rightarrow> (Inr (text_response ''No payments found. Try again later.''), s1))"

text \<open>
  \<open>SearchDocumentationArgs\<close>, the type the guard \<open>isSearchDocumentationArgs\<close> narrows the
  arguments to; \<open>limit\<close> is optional.
\<close>

record SearchDocumentationArgs =
  language :: string
  query :: string
  siteId :: string
  limit :: "rat option"

text \<open>The link sign U+1F517 of the template, as its UTF-8 bytes.\<close>

definition link_sign :: string where
  "link_sign = [CHR 0xF0, CHR 0x9F, CHR 0x94, CHR 0x97]"

text \<open>
  The callback of \<open>results.map\<close> (lines 524-543): \<open>None\<close> is the \<open>null\<close> it returns for a
  result with neither title nor content.
\<close>

definition render_result ::
  "(rat \<Rightarrow> string) \<Rightarrow> SearchDocumentationArgs \<Rightarrow> json \<Rightarrow> js_error + string option" where
  "render_result num args result =
     (if nullish result then
        Inl (TypeError ''Cannot read properties of undefined (reading title)'')
      else if \<not> truthy (member result ''title'') \<and> \<not> truthy (member result ''content'') then
        Inr None
      else
        (let title = js_or (member result ''title'') (JStr ''Untitled'');
             description = js_or (member result ''content'') (JStr ''No description available'');
             siteDomain = site_domain (siteId args);
             score = js_or (member result ''score'') (JNum 0)
         in case buildDocumentationUrl siteDomain (language args)
                   (to_string num (js_or (member result ''url'') (JStr []))) of
              Inl e \<Rightarrow> Inl e
            | Inr link \<Rightarrow>
                Inr (Some (''## '' @ to_string num title @ ''\<newline>''
                  @ to_string num description @ ''\<newline>\<newline>''
                  @ link_sign @ '' [Read more]('' @ link @ '')\<newline>\<newline>''
                  @ ''Score: '' @ to_string num score @ ''\<newline>''))))"

text \<open>\<open>blocks.join(sep)\<close>: \<open>join\<close> prints a \<open>null\<close> element as the empty string.\<close>

definition join_nullable :: "string \<Rightarrow> string option list \<Rightarrow> string" where
  "join_nullable sep blocks =
     join sep (map (\<lambda>b. case b of None \<Rightarrow> [] | Some t \<Rightarrow> t) blocks)"

definition search_request :: "SearchDocumentationArgs \<Rightarrow> config" where
  "search_request args =
     new_request GET ''/docs/v1/search''
       (JObj [(''term'', JStr (query args)),
              (''lang'', JStr (language args)),
              (''siteId'', JStr (siteId args)),
              (''maxResults'',
                 (case limit args of
                    None \<Rightarrow> JNum 10
                  | Some n \<Rightarrow> if n \<noteq> 0 then JNum n else JNum 10))])
       JUndefined"

definition handleSearchDocumentation_try ::
  "upstream \<Rightarrow> SearchDocumentationArgs \<Rightarrow> state \<Rightarrow> (js_error + ToolResponse) \<times> state" where
  "handleSearchDocumentation_try w args s =
     (case api w (search_request args) s of
        (Inl e, s1) \<Rightarrow> (Inl e, s1)
      | (Inr response, s1) \<Rightarrow>
          (case data response of
             JArr results \<Rightarrow>
               (if length results = 0 then
                  (Inr (text_response (''No documentation found for query '' @ dquote
                     @ query args @ dquote @ ''. Try a different search term.'')), s1)
                else
                  (case map_throwing (render_result (number_toString w) args) results of
                     Inl e \<Rightarrow> (Inl e, s1)
                   | Inr blocks \<Rightarrow>
                       (Inr (text_response (''# Search Results for '' @ dquote @ query args
                          @ dquote @ ''\<newline>Showing ''
                          @ number_toString w (of_nat (length results))
                          @ '' results\<newline>\<newline>''
                          @ (if length results > 0 then join_nullable rule_sep blocks
                             else ''No results found.''))), s1)))
           | _ \<Rightarrow>
               (Inl (McpError InternalError
                  ''No search results available for the given query''), s1)))"

text \<open>
  The \<open>catch\<close> of \<open>handleSearchDocumentation\<close>: everything that is thrown is an \<open>Error\<close>,
  so the text is built from its message.
\<close>

definition handleSearchDocumentation ::
  "upstream \<Rightarrow> SearchDocumentationArgs \<Rightarrow> state \<Rightarrow> (js_error + ToolResponse) \<times> state" where
  "handleSearchDocumentation w args s =
     (case handleSearchDocumentation_try w args s of
        (Inr result, s1) \<Rightarrow> (Inr result, s1)
      | (Inl e, s1) \<Rightarrow>
          (Inr (error_response (''Error searching documentation: '' @ message e)), s1))"

section \<open>The dispatcher\<close>

record CallToolRequest =
  name :: string
  arguments :: json

text \<open>\<open>typeof v === 'object'\<close>\<close>

fun is_object :: "json \<Rightarrow> bool" where
  "is_object JNull = True"
| "is_object (JArr xs) = True"
| "is_object (JObj kvs) = True"
| "is_object v = False"

fun is_string :: "json \<Rightarrow> bool" where
  "is_string (JStr s) = True"
| "is_string v = False"

text \<open>\<open>typeof v === 'number' && v >= 1 && v <= 100\<close>\<close>

fun number_in_range :: "json \<Rightarrow> bool" where
  "number_in_range (JNum n) = (1 \<le> n \<and> n \<le> 100)"
| "number_in_range v = False"

definition isSearchDocumentationArgs :: "json \<Rightarrow> bool" where
  "isSearchDocumentationArgs args =
     (if \<not> truthy args then False
      else if \<not> is_object args then False
      else
        (let validLanguage = (truthy (member args ''language'')
               \<and> List.member [JStr ''es'', JStr ''pt''] (member args ''language''));
             validQuery = is_string (member args ''query'');
             validSiteId = (truthy (member args ''siteId'')
               \<and> List.member (map JStr VALID_SITES) (member args ''siteId''));
             validLimit = (member args ''limit'' = JUndefined
               \<or> number_in_range (member args ''limit''))
         in validLanguage \<and> validQuery \<and> validSiteId \<and> validLimit))"

text \<open>
  The narrowing itself: arguments that passed the guard, read at the type
  \<open>SearchDocumentationArgs\<close>.
\<close>

fun string_of :: "json \<Rightarrow> string" where
  "string_of (JStr s) = s"
| "string_of v = []"

fun number_of :: "json \<Rightarrow> rat option" where
  "number_of (JNum n) = Some n"
| "number_of v = None"

definition as_SearchDocumentationArgs :: "json \<Rightarrow> SearchDocumentationArgs" where
  "as_SearchDocumentationArgs args =
     \<lparr>language = string_of (member args ''language''),
      query = string_of (member args ''query''),
      siteId = string_of (member args ''siteId''),
      limit = number_of (member args ''limit'')\<rparr>"

text \<open>\<open>createRequestContext\<close>: the context is only logged, the counter is state.\<close>

definition createRequestContext :: "string \<Rightarrow> state \<Rightarrow> state" where
  "createRequestContext toolName s = s\<lparr>requestCount := requestCount s + 1\<rparr>"

text \<open>The \<open>try\<close> block of the call-tool handler (lines 339-371).\<close>

definition callTool_try ::
  "upstream \<Rightarrow> CallToolRequest \<Rightarrow> state \<Rightarrow> (js_error + ToolResponse) \<times> state" where
  "callTool_try w request s =
     (if name request = ''search_documentation'' then
        (if isSearchDocumentationArgs (arguments request) then
           handleSearchDocumentation w (as_SearchDocumentationArgs (arguments request)) s
         else (Inl (McpError InvalidParams ''Invalid search_documentation arguments''), s))
      else if name request = ''payments_methods'' then handlePaymentsMethods w s
      else if name request = ''document_types'' then handleDocumentTypes w s
      else if name request = ''create_customer'' then
        handleCreateCustomer w (arguments request) s
      else (Inl (McpError MethodNotFound (''Unknown tool: '' @ name request)), s))"

text \<open>\<open>error.response?.data?.message || error.message\<close>, as the template prints it.\<close>

fun api_error_text :: "(rat \<Rightarrow> string) \<Rightarrow> js_error \<Rightarrow> string" where
  "api_error_text num (AxiosError st d m cfg) =
     (if st \<noteq> None \<and> \<not> nullish d \<and> truthy (member d ''message'')
      then to_string num (member d ''message'') else m)"
| "api_error_text num e = message e"

text \<open>
  The call-tool handler: the \<open>catch\<close> turns an axios error into an error envelope and
  rethrows everything else; what is rethrown (\<open>Inl\<close>) is the protocol-level error the
  caller receives instead of a \<open>ToolResponse\<close>.
\<close>

definition callTool ::
  "upstream \<Rightarrow> CallToolRequest \<Rightarrow> state \<Rightarrow> (js_error + ToolResponse) \<times> state" where
  "callTool w request s =
     (case callTool_try w request (createRequestContext (name request) s) of
        (Inr result, s1) \<Rightarrow> (Inr result, s1)
      | (Inl error, s1) \<Rightarrow>
          (if isAxiosError error then
             (Inr (error_response (''MercadoPago API error: ''
                @ api_error_text (number_toString w) error)), s1)
           else (Inl error, s1)))"

section \<open>Observing a run\<close>

text \<open>The events a run from \<open>s\<close> to \<open>s'\<close> added.\<close>

definition new_events :: "state \<Rightarrow> state \<Rightarrow> event list" where
  "new_events s s' = drop (length (events s)) (events s')"

text \<open>The answers the API gave, in order, and the status of an answer.\<close>

fun replies :: "event list \<Rightarrow> http_outcome list" where
  "replies [] = []"
| "replies (ApiCall c r # es) = r # replies es"
| "replies (e # es) = replies es"

fun reply_status :: "http_outcome \<Rightarrow> nat option" where
  "reply_status (Reply st d) = Some st"
| "reply_status (NoReply m) = None"

text \<open>The test of \<open>getAccessToken\<close>: the cache holds a token that is not the empty string.\<close>

definition has_token :: "state \<Rightarrow> bool" where
  "has_token s = (accessToken s \<noteq> None \<and> accessToken s \<noteq> Some [])"

text \<open>The state after the constructors: no token, no request counted, nothing sent.\<close>

definition initial_state :: state where
  "initial_state = \<lparr>accessToken = None, requestCount = 0, events = []\<rparr>"

text \<open>
  For the concrete runs below: a printing of numbers that gives the integral part in
  decimal (the runs print integers only), and the upstream made of two answer functions.
\<close>

function decimal :: "nat \<Rightarrow> string" where
  "decimal n = (if n < 10 then [''0123456789'' ! n]
                else decimal (n div 10) @ [''0123456789'' ! (n mod 10)])"
  by pat_completeness auto
termination
  by (relation "measure id") auto

definition print_number :: "rat \<Rightarrow> string" where
  "print_number q = (if q < 0 then ''-'' else []) @ decimal (nat \<lfloor>\<bar>q\<bar>\<rfloor>)"

definition upstream_of ::
  "(nat \<Rightarrow> auth_outcome) \<Rightarrow> (nat \<Rightarrow> config \<Rightarrow> http_outcome) \<Rightarrow> upstream" where
  "upstream_of a r = \<lparr>auth_reply = a, api_reply = r, number_toString = print_number\<rparr>"

text \<open>Tokens are issued in sequence: \<open>token-0\<close>, \<open>token-1\<close>, ...\<close>

definition issue_token :: "nat \<Rightarrow> auth_outcome" where
  "issue_token n = AuthOk (''token-'' @ decimal n)"

text \<open>
  An API whose first answer is a 401 and whose later answers are a 200 with an empty list,
  an API that answers every request with a 401, and the request of \<open>document_types\<close>.
\<close>

definition first_401_then_200 :: upstream where
  "first_401_then_200 =
     upstream_of issue_token (\<lambda>n cfg. if n = 0 then Reply 401 JNull else Reply 200 (JArr []))"

definition always_401 :: upstream where
  "always_401 = upstream_of issue_token (\<lambda>n cfg. Reply 401 JNull)"

text \<open>
  An API that answers every request with a 200 and the given body, and one that cannot be
  reached.
\<close>

definition steady_upstream :: "json \<Rightarrow> upstream" where
  "steady_upstream d = upstream_of issue_token (\<lambda>n cfg. Reply 200 d)"

definition unreachable_upstream :: upstream where
  "unreachable_upstream = upstream_of issue_token (\<lambda>n cfg. NoReply ''connect ECONNREFUSED'')"

definition listing_request :: config where
  "listing_request =
     new_request GET ''https://api.mercadopago.com/v1/identification_types'' JUndefined JUndefined"

text \<open>
  The request of \<open>create_customer\<close> for one address, and a state whose cache holds a
  token the API no longer accepts.
\<close>

definition customers_request :: config where
  "customers_request =
     new_request POST ''https://api.mercadopago.com/v1/customers'' JUndefined
       (JObj [(''email'', JStr ''ana@example.com'')])"

definition stale_state :: state where
  "stale_state = \<lparr>accessToken = Some ''stale'', requestCount = 0, events = []\<rparr>"

text \<open>
  What a run may do to the token cache when no 401 arrives: nothing, or, from a cache without
  a token, exactly one exchange whose token, if it succeeds, is the one cached.
\<close>

definition token_reused :: "upstream \<Rightarrow> state \<Rightarrow> state \<Rightarrow> bool" where
  "token_reused w s s' =
     ((authCalls s' = authCalls s \<and> accessToken s' = accessToken s)
      \<or> (\<not> has_token s \<and> authCalls s' = authCalls s + 1
          \<and> (\<forall>t. auth_reply w (authCalls s) = AuthOk t \<longrightarrow> accessToken s' = Some t)))"

text \<open>
  An API that answers a 401 to every request not marked as a retry, a token endpoint that
  issues the empty string, and a \<open>document_types\<close> call.
\<close>

definition expiring_tokens :: upstream where
  "expiring_tokens =
     upstream_of issue_token
       (\<lambda>n cfg. if isRetry cfg then Reply 200 (JArr []) else Reply 401 JNull)"

definition empty_token_upstream :: upstream where
  "empty_token_upstream = upstream_of (\<lambda>n. AuthOk []) (\<lambda>n cfg. Reply 200 (JArr []))"

definition document_types_call :: CallToolRequest where
  "document_types_call = \<lparr>name = ''document_types'', arguments = JObj []\<rparr>"

text \<open>
  The digest as the specification words it, to compare with the one the handler builds: the
  heading, the subheading, then the blocks of the results that have a title or a content
  (a result with neither is left out), separated by the horizontal rule.
\<close>

definition spec_blocks ::
  "(rat \<Rightarrow> string) \<Rightarrow> SearchDocumentationArgs \<Rightarrow> json list \<Rightarrow> string list" where
  "spec_blocks num args results =
     concat (map (\<lambda>r. case render_result num args r of
                          Inr (Some block) \<Rightarrow> [block]
                        | _ \<Rightarrow> []) results)"

definition spec_search_markdown ::
  "(rat \<Rightarrow> string) \<Rightarrow> SearchDocumentationArgs \<Rightarrow> json list \<Rightarrow> string" where
  "spec_search_markdown num args results =
     ''# Search Results for '' @ dquote @ query args @ dquote
     @ ''\<newline>Showing '' @ num (of_nat (length results)) @ '' results\<newline>\<newline>''
     @ join rule_sep (spec_blocks num args results)"

text \<open>
  A search with three results: one without a title, one with neither title nor content, one
  without a content.
\<close>

definition sample_search_args :: SearchDocumentationArgs where
  "sample_search_args =
     \<lparr>language = ''es'', query = ''checkout'', siteId = ''MLA'', limit = None\<rparr>"

definition sample_results :: "json list" where
  "sample_results =
     [JObj [(''content'', JStr ''Accept payments''), (''url'', JStr ''/guides/checkout-pro'')],
      JObj [(''url'', JStr ''/guides/draft'')],
      JObj [(''title'', JStr ''Checkout API''), (''url'', JStr ''/guides/checkout-api'')]]"


section \<open>Documentation URLs: the composition is exact\<close>

lemma site_domain_nonempty: "site \<in> set VALID_SITES \<Longrightarrow> site_domain site \<noteq> []"
  by (auto simp: VALID_SITES_def site_domain_def SITE_DOMAINS_def)

text \<open>
  C10. For every site id of the static table (whose domain is therefore not empty), every
  language in \<open>{es, pt}\<close> and every path, the empty one included,
  \<open>buildDocumentationUrl\<close> returns exactly \<open>https://<domain>/developers/<language><path>\<close>
  and does not throw.
\<close>

theorem buildDocumentationUrl_composes:
  assumes "site \<in> set VALID_SITES" and "lang \<in> {''es'', ''pt''}"
  shows "site_domain site \<noteq> [] \<and>
         buildDocumentationUrl (site_domain site) lang path =
           Inr (''https://'' @ site_domain site @ ''/developers/'' @ lang @ path)"
proof -
  have d: "site_domain site \<noteq> []"
    using assms(1) by (rule site_domain_nonempty)
  have l: "lang \<noteq> []"
    using assms(2) by auto
  show ?thesis
    using d l by (simp add: buildDocumentationUrl_def)
qed

theorem buildDocumentationUrl_composes_witness:
  "''MLA'' \<in> set VALID_SITES \<and> ''es'' \<in> {''es'', ''pt''} \<and>
   buildDocumentationUrl (site_domain ''MLA'') ''es'' [] =
     Inr ''https://www.mercadopago.com.ar/developers/es''"
  using buildDocumentationUrl_composes [of "''MLA''" "''es''" "[]"]
  by (simp add: VALID_SITES_def site_domain_def SITE_DOMAINS_def)

section \<open>The request pipeline: one call, at most one retry\<close>

declare api.simps [simp del] response_rejected.simps [simp del]

lemma isRetry_authorize [simp]: "isRetry (authorize t c) = isRetry c"
  by (simp add: authorize_def)

lemma Authorization_authorize [simp]:
  "Authorization (authorize t c) = Some (''Bearer '' @ t)"
  by (simp add: authorize_def)

lemma authorize_isRetry_update:
  "authorize t (c\<lparr>isRetry := b\<rparr>) = (authorize t c)\<lparr>isRetry := b\<rparr>"
  by (simp add: authorize_def)

lemma response_rejected_no_config:
  "error_config e = None \<Longrightarrow> response_rejected w e s = (Inl e, s)"
  by (simp add: response_rejected.simps)

lemma response_rejected_retried:
  "error_config e = Some c \<Longrightarrow> isRetry c \<Longrightarrow> response_rejected w e s = (Inl e, s)"
  by (simp add: response_rejected.simps)

lemma response_rejected_other_status:
  "error_status e \<noteq> Some 401 \<Longrightarrow> response_rejected w e s = (Inl e, s)"
  by (simp add: response_rejected.simps)

lemma response_rejected_401:
  "error_status e = Some 401 \<Longrightarrow> error_config e = Some c \<Longrightarrow> \<not> isRetry c \<Longrightarrow>
   response_rejected w e s = api w (c\<lparr>isRetry := True\<rparr>) (clearToken s)"
  by (simp add: response_rejected.simps)

lemma api_retried:
  assumes "isRetry cfg"
  shows "api w cfg s =
     (case getAccessToken w s of
        (Inl e, s1) \<Rightarrow> (Inl e, s1)
      | (Inr token, s1) \<Rightarrow> dispatchRequest w (authorize token cfg) s1)"
proof (cases "getAccessToken w s")
  case (Pair r s1)
  show ?thesis
  proof (cases r)
    case (Inl e)
    with Pair have "error_config e = None"
      using getAccessToken_error_config by simp
    with Pair Inl show ?thesis
      by (simp add: api.simps [of w cfg s] response_rejected_no_config)
  next
    case (Inr token)
    obtain r2 s2 where d: "dispatchRequest w (authorize token cfg) s1 = (r2, s2)"
      by (cases "dispatchRequest w (authorize token cfg) s1")
    show ?thesis
    proof (cases r2)
      case (Inl e)
      with d have "error_config e = Some (authorize token cfg)"
        using dispatchRequest_error_config by simp
      with Pair Inr d Inl assms show ?thesis
        by (simp add: api.simps [of w cfg s] response_rejected_retried)
    next
      case (Inr resp)
      with Pair \<open>r = Inr token\<close> d show ?thesis
        by (simp add: api.simps [of w cfg s])
    qed
  qed
qed

lemma api_first:
  assumes "\<not> isRetry cfg"
  shows "api w cfg s =
     (case getAccessToken w s of
        (Inl e, s1) \<Rightarrow> (Inl e, s1)
      | (Inr token, s1) \<Rightarrow>
          (case dispatchRequest w (authorize token cfg) s1 of
             (Inr r, s2) \<Rightarrow> (Inr r, s2)
           | (Inl e, s2) \<Rightarrow>
               (if error_status e = Some 401 then
                  api w ((authorize token cfg)\<lparr>isRetry := True\<rparr>) (clearToken s2)
                else (Inl e, s2))))"
proof (cases "getAccessToken w s")
  case (Pair r s1)
  show ?thesis
  proof (cases r)
    case (Inl e)
    with Pair have "error_config e = None"
      using getAccessToken_error_config by simp
    with Pair Inl show ?thesis
      by (simp add: api.simps [of w cfg s] response_rejected_no_config)
  next
    case (Inr token)
    obtain r2 s2 where d: "dispatchRequest w (authorize token cfg) s1 = (r2, s2)"
      by (cases "dispatchRequest w (authorize token cfg) s1")
    show ?thesis
    proof (cases r2)
      case (Inl e)
      with d have c: "error_config e = Some (authorize token cfg)"
        using dispatchRequest_error_config by simp
      show ?thesis
      proof (cases "error_status e = Some 401")
        case True
        with c Pair Inr d Inl assms show ?thesis
          by (simp add: api.simps [of w cfg s] response_rejected_401 [OF True c])
      next
        case False
        with c Pair Inr d Inl assms show ?thesis
          by (simp add: api.simps [of w cfg s] response_rejected_other_status)
      qed
    next
      case (Inr resp)
      with Pair \<open>r = Inr token\<close> d show ?thesis
        by (simp add: api.simps [of w cfg s])
    qed
  qed
qed

lemma getAccessToken_run:
  assumes "getAccessToken w s = (r, s1)"
  shows "\<exists>pre. events s1 = events s @ pre \<and> (pre = [] \<or> (\<exists>x. pre = [TokenExchange x])) \<and>
           (case r of Inl e \<Rightarrow> error_config e = None | Inr t \<Rightarrow> True)"
  using assms
  by (auto simp: getAccessToken_def emit_def Let_def split: if_splits auth_outcome.splits)

lemma getAccessToken_after_clear:
  "getAccessToken w (clearToken s) =
     (case auth_reply w (authCalls s) of
        AuthOk t \<Rightarrow>
          (Inr t, s\<lparr>accessToken := Some t,
                     events := events s @ [TokenClear, TokenExchange (AuthOk t)]\<rparr>)
      | AuthFail m \<Rightarrow>
          (Inl (McpError InternalError (''MercadoPago Auth error: '' @ m)),
           s\<lparr>accessToken := None,
              events := events s @ [TokenClear, TokenExchange (AuthFail m)]\<rparr>))"
  by (simp add: getAccessToken_def clearToken_def emit_def authCalls_def Let_def
      split: auth_outcome.splits)

lemma retry_run:
  assumes "isRetry c2" and "api w c2 (clearToken s2) = (res, s')"
  obtains (no_token) m e where
      "events s' = events s2 @ [TokenClear, TokenExchange (AuthFail m)]"
      "res = Inl e" "error_config e = None"
  | (reissued) t r2 where
      "events s' = events s2 @ [TokenClear, TokenExchange (AuthOk t), ApiCall (authorize t c2) r2]"
      "accessToken s' = Some t" "res = settle w (authorize t c2) r2"
proof (cases "auth_reply w (authCalls s2)")
  case (AuthOk t)
  define s3 where "s3 = s2\<lparr>accessToken := Some t,
      events := events s2 @ [TokenClear, TokenExchange (AuthOk t)]\<rparr>"
  define r2 where "r2 = api_reply w (apiCalls s3) (authorize t c2)"
  have "api w c2 (clearToken s2) = (settle w (authorize t c2) r2, emit (ApiCall (authorize t c2) r2) s3)"
    using AuthOk assms(1)
    by (simp add: api_retried getAccessToken_after_clear dispatchRequest_def Let_def
        s3_def r2_def)
  with assms(2) have "res = settle w (authorize t c2) r2"
    and "s' = emit (ApiCall (authorize t c2) r2) s3"
    by simp_all
  then show thesis
    by (intro reissued [of t r2]) (simp_all add: emit_def s3_def)
next
  case (AuthFail m)
  with assms have "res = Inl (McpError InternalError (''MercadoPago Auth error: '' @ m))"
    and "s' = s2\<lparr>accessToken := None,
              events := events s2 @ [TokenClear, TokenExchange (AuthFail m)]\<rparr>"
    by (simp_all add: api_retried getAccessToken_after_clear)
  then show thesis
    by (intro no_token [of m "McpError InternalError (''MercadoPago Auth error: '' @ m)"])
      simp_all
qed

lemma settle_error_status:
  "settle w c r = Inl e \<Longrightarrow> error_status e = reply_status r"
  by (auto simp: settle_def split: http_outcome.splits if_splits)

lemma api_run_cases [consumes 2, case_names acquire_failed settled reexchange_failed retried]:
  assumes "\<not> isRetry cfg"
    and "api w cfg s = (res, s')"
  obtains
    (acquire_failed) pre e where
      "pre = [] \<or> (\<exists>x. pre = [TokenExchange x])"
      "events s' = events s @ pre" "res = Inl e" "error_config e = None"
  | (settled) pre c r where
      "pre = [] \<or> (\<exists>x. pre = [TokenExchange x])"
      "events s' = events s @ pre @ [ApiCall c r]" "\<not> isRetry c"
      "reply_status r \<noteq> Some 401" "res = settle w c r"
  | (reexchange_failed) pre c d m e where
      "pre = [] \<or> (\<exists>x. pre = [TokenExchange x])"
      "events s' = events s @ pre @ [ApiCall c (Reply 401 d), TokenClear, TokenExchange (AuthFail m)]"
      "\<not> isRetry c" "res = Inl e" "error_config e = None"
  | (retried) pre c d t c2 r2 where
      "pre = [] \<or> (\<exists>x. pre = [TokenExchange x])"
      "events s' = events s @ pre @
         [ApiCall c (Reply 401 d), TokenClear, TokenExchange (AuthOk t), ApiCall c2 r2]"
      "\<not> isRetry c" "isRetry c2" "Authorization c2 = Some (''Bearer '' @ t)"
      "accessToken s' = Some t" "res = settle w c2 r2"
proof -
  obtain r s1 where g: "getAccessToken w s = (r, s1)"
    by (cases "getAccessToken w s")
  from getAccessToken_run [OF g] obtain pre where
    pre: "events s1 = events s @ pre" "pre = [] \<or> (\<exists>x. pre = [TokenExchange x])"
    and r: "case r of Inl e \<Rightarrow> error_config e = None | Inr t \<Rightarrow> True"
    by blast
  show thesis
  proof (cases r)
    case (Inl e)
    with g assms(2) have "res = Inl e" "s' = s1"
      by (simp_all add: api_first [OF assms(1)])
    with r Inl pre show thesis
      by (intro acquire_failed [of pre e]) simp_all
  next
    case (Inr token)
    define c where "c = authorize token cfg"
    define x where "x = api_reply w (apiCalls s1) c"
    define s2 where "s2 = emit (ApiCall c x) s1"
    have d: "dispatchRequest w c s1 = (settle w c x, s2)"
      by (simp add: dispatchRequest_def x_def s2_def Let_def)
    have e2: "events s2 = events s @ pre @ [ApiCall c x]"
      by (simp add: s2_def emit_def pre)
    have nc: "\<not> isRetry c"
      using assms(1) by (simp add: c_def)
    show thesis
    proof (cases "reply_status x = Some 401")
      case False
      have "res = settle w c x \<and> s' = s2"
      proof (cases "settle w c x")
        case (Inl e)
        with False have "error_status e \<noteq> Some 401"
          by (simp add: settle_error_status)
        with assms(2) g Inr d Inl show ?thesis
          by (simp add: api_first [OF assms(1)] c_def [symmetric])
      next
        case (Inr resp)
        with assms(2) g \<open>r = Inr token\<close> d show ?thesis
          by (simp add: api_first [OF assms(1)] c_def [symmetric])
      qed
      with e2 nc False pre(2) show thesis
        by (intro settled [of pre c x]) simp_all
    next
      case True
      then obtain dd where x: "x = Reply 401 dd"
        by (cases x) auto
      then obtain e where se: "settle w c x = Inl e" "error_status e = Some 401"
        by (auto simp: settle_def)
      have run: "api w (c\<lparr>isRetry := True\<rparr>) (clearToken s2) = (res, s')"
        using assms(2) g Inr d se
        by (simp add: api_first [OF assms(1)] c_def [symmetric])
      have "isRetry (c\<lparr>isRetry := True\<rparr>)"
        by simp
      from this run show thesis
      proof (cases rule: retry_run)
        case (no_token m e)
        with e2 x nc pre(2) show thesis
          by (intro reexchange_failed [of pre c dd m e]) simp_all
      next
        case (reissued t r2)
        with e2 x nc pre(2) show thesis
          by (intro retried [of pre c dd t "authorize t (c\<lparr>isRetry := True\<rparr>)" r2]) simp_all
      qed
    qed
  qed
qed

lemma new_events_append: "events s' = events s @ xs \<Longrightarrow> new_events s s' = xs"
  by (simp add: new_events_def)

lemmas run_defs = api.simps response_rejected.simps getAccessToken_def dispatchRequest_def
  settle_def clearToken_def emit_def authorize_def authCalls_def apiCalls_def Let_def
  new_request_def initial_state_def upstream_of_def issue_token_def print_number_def
  new_events_def

text \<open>
  C1. Take an outbound call (a configuration not yet marked as a retry) for which a token is
  at hand (cached, or delivered by the exchange the call starts with), whose request the API
  answers with a 401, whose next token exchange succeeds, and whose re-issued request the
  API answers with a 200. Then the caller receives the response with status 200, not an
  error, and after the token was obtained the call does exactly this, in this order: the
  request answered 401, one token clear, one token exchange, one request marked as a retry
  that carries the new token. So there is exactly one token clear, exactly one new token
  exchange, exactly one retried request, and two requests in all.
\<close>

theorem retry_after_single_401:
  assumes "\<not> isRetry cfg"
    and "(has_token s \<and> t0 = the (accessToken s) \<and> pre = [])
       \<or> (\<not> has_token s \<and> auth_reply w (authCalls s) = AuthOk t0
            \<and> pre = [TokenExchange (AuthOk t0)])"
    and "api_reply w (apiCalls s) (authorize t0 cfg) = Reply 401 d1"
    and "auth_reply w (authCalls s + length pre) = AuthOk t1"
    and "api_reply w (apiCalls s + 1) (authorize t1 ((authorize t0 cfg)\<lparr>isRetry := True\<rparr>))
           = Reply 200 d2"
  shows "fst (api w cfg s) = Inr \<lparr>status = 200, data = d2\<rparr> \<and>
         new_events s (snd (api w cfg s)) =
           pre @ [ApiCall (authorize t0 cfg) (Reply 401 d1),
                  TokenClear,
                  TokenExchange (AuthOk t1),
                  ApiCall (authorize t1 ((authorize t0 cfg)\<lparr>isRetry := True\<rparr>)) (Reply 200 d2)] \<and>
         accessToken (snd (api w cfg s)) = Some t1 \<and>
         count_list (new_events s (snd (api w cfg s))) TokenClear = 1 \<and>
         length (filter is_exchange
           (dropWhile (\<lambda>e. \<not> is_api_call e) (new_events s (snd (api w cfg s))))) = 1 \<and>
         length (filter is_retried_call (new_events s (snd (api w cfg s)))) = 1 \<and>
         length (filter is_api_call (new_events s (snd (api w cfg s)))) = 2"
proof -
  define c1 where "c1 = authorize t0 cfg"
  define c2 where "c2 = authorize t1 (c1\<lparr>isRetry := True\<rparr>)"
  define s1 where "s1 = (if has_token s then s
     else (emit (TokenExchange (AuthOk t0)) s)\<lparr>accessToken := Some t0\<rparr>)"
  have g: "getAccessToken w s = (Inr t0, s1)"
    using assms(2) by (auto simp: getAccessToken_def has_token_def s1_def Let_def)
  have e1: "events s1 = events s @ pre"
    using assms(2) by (auto simp: s1_def emit_def)
  have pre: "pre = [] \<or> pre = [TokenExchange (AuthOk t0)]"
    using assms(2) by auto
  have a1: "apiCalls s1 = apiCalls s"
    using pre by (auto simp: apiCalls_def e1)
  have u1: "authCalls s1 = authCalls s + length pre"
    using pre by (auto simp: authCalls_def e1)
  define s2 where "s2 = emit (ApiCall c1 (Reply 401 d1)) s1"
  have d1: "dispatchRequest w c1 s1 =
      (Inl (AxiosError (Some 401) d1
         (''Request failed with status code '' @ number_toString w (of_nat 401)) (Some c1)), s2)"
    using assms(3) by (simp add: dispatchRequest_def settle_def a1 c1_def s2_def Let_def)
  have first: "api w cfg s = api w (c1\<lparr>isRetry := True\<rparr>) (clearToken s2)"
    using g d1 by (simp add: api_first [OF assms(1)] c1_def [symmetric])
  define s3 where "s3 = s2\<lparr>accessToken := Some t1,
      events := events s2 @ [TokenClear, TokenExchange (AuthOk t1)]\<rparr>"
  have "authCalls s2 = authCalls s1"
    by (simp add: s2_def emit_def authCalls_def)
  with u1 assms(4) have g2: "getAccessToken w (clearToken s2) = (Inr t1, s3)"
    by (simp add: getAccessToken_after_clear s3_def)
  have "apiCalls s3 = apiCalls s + 1"
    using a1 by (simp add: s3_def s2_def emit_def apiCalls_def)
  with assms(5) have d2: "dispatchRequest w c2 s3 =
      (Inr \<lparr>status = 200, data = d2\<rparr>, emit (ApiCall c2 (Reply 200 d2)) s3)"
    by (simp add: dispatchRequest_def settle_def c2_def c1_def Let_def)
  have run: "api w cfg s = (Inr \<lparr>status = 200, data = d2\<rparr>, emit (ApiCall c2 (Reply 200 d2)) s3)"
    using g2 d2 by (simp add: first api_retried c2_def [symmetric])
  have ev: "events (emit (ApiCall c2 (Reply 200 d2)) s3) =
      events s @ pre @ [ApiCall c1 (Reply 401 d1), TokenClear, TokenExchange (AuthOk t1),
        ApiCall c2 (Reply 200 d2)]"
    by (simp add: emit_def s3_def s2_def e1)
  have n: "new_events s (snd (api w cfg s)) =
      pre @ [ApiCall c1 (Reply 401 d1), TokenClear, TokenExchange (AuthOk t1),
        ApiCall c2 (Reply 200 d2)]"
    by (simp add: run new_events_append [OF ev])
  have r1: "\<not> isRetry c1" and r2: "isRetry c2"
    using assms(1) by (simp_all add: c1_def c2_def)
  have tok: "accessToken (snd (api w cfg s)) = Some t1"
    by (simp add: run emit_def s3_def)
  have counts: "count_list (new_events s (snd (api w cfg s))) TokenClear = 1 \<and>
         length (filter is_exchange
           (dropWhile (\<lambda>e. \<not> is_api_call e) (new_events s (snd (api w cfg s))))) = 1 \<and>
         length (filter is_retried_call (new_events s (snd (api w cfg s)))) = 1 \<and>
         length (filter is_api_call (new_events s (snd (api w cfg s)))) = 2"
    using pre r1 r2 by (auto simp: n)
  from run n tok counts show ?thesis
    by (simp add: c1_def c2_def)
qed

theorem retry_after_single_401_witness:
  "\<not> isRetry customers_request \<and> \<not> has_token initial_state \<and>
   auth_reply first_401_then_200 (authCalls initial_state) = AuthOk ''token-0'' \<and>
   api_reply first_401_then_200 (apiCalls initial_state)
     (authorize ''token-0'' customers_request) = Reply 401 JNull \<and>
   auth_reply first_401_then_200 (authCalls initial_state + 1) = AuthOk ''token-1'' \<and>
   api_reply first_401_then_200 (apiCalls initial_state + 1)
     (authorize ''token-1'' ((authorize ''token-0'' customers_request)\<lparr>isRetry := True\<rparr>))
     = Reply 200 (JArr []) \<and>
   fst (api first_401_then_200 customers_request initial_state)
     = Inr \<lparr>status = 200, data = JArr []\<rparr> \<and>
   new_events initial_state (snd (api first_401_then_200 customers_request initial_state)) =
     [TokenExchange (AuthOk ''token-0''),
      ApiCall (authorize ''token-0'' customers_request) (Reply 401 JNull),
      TokenClear,
      TokenExchange (AuthOk ''token-1''),
      ApiCall (authorize ''token-1'' ((authorize ''token-0'' customers_request)\<lparr>isRetry := True\<rparr>))
        (Reply 200 (JArr []))] \<and>
   has_token stale_state \<and>
   fst (api first_401_then_200 customers_request stale_state)
     = Inr \<lparr>status = 200, data = JArr []\<rparr> \<and>
   new_events stale_state (snd (api first_401_then_200 customers_request stale_state)) =
     [ApiCall (authorize ''stale'' customers_request) (Reply 401 JNull),
      TokenClear,
      TokenExchange (AuthOk ''token-0''),
      ApiCall (authorize ''token-0'' ((authorize ''stale'' customers_request)\<lparr>isRetry := True\<rparr>))
        (Reply 200 (JArr []))]"
proof -
  let ?w = first_401_then_200
  have h1: "\<not> isRetry customers_request"
    by (simp add: customers_request_def new_request_def)
  have n: "\<not> has_token initial_state" and a0: "authCalls initial_state = 0"
    and p0: "apiCalls initial_state = 0"
    by (simp_all add: has_token_def initial_state_def authCalls_def apiCalls_def)
  have x0: "auth_reply ?w (authCalls initial_state) = AuthOk ''token-0''"
    by (simp add: a0 first_401_then_200_def upstream_of_def issue_token_def decimal.simps)
  have x1: "auth_reply ?w (authCalls initial_state + 1) = AuthOk ''token-1''"
    by (simp add: a0 first_401_then_200_def upstream_of_def issue_token_def decimal.simps)
  have y0: "\<And>c. api_reply ?w (apiCalls initial_state) c = Reply 401 JNull"
    by (simp add: p0 first_401_then_200_def upstream_of_def)
  have y1: "\<And>c. api_reply ?w (apiCalls initial_state + 1) c = Reply 200 (JArr [])"
    by (simp add: p0 first_401_then_200_def upstream_of_def)
  have cold: "(has_token initial_state \<and> ''token-0'' = the (accessToken initial_state)
        \<and> [TokenExchange (AuthOk ''token-0'')] = [])
     \<or> (\<not> has_token initial_state \<and> auth_reply ?w (authCalls initial_state) = AuthOk ''token-0''
        \<and> [TokenExchange (AuthOk ''token-0'')] = [TokenExchange (AuthOk ''token-0'')])"
    using n x0 by simp
  have x1': "auth_reply ?w (authCalls initial_state + length [TokenExchange (AuthOk ''token-0'')])
      = AuthOk ''token-1''"
    using x1 by simp
  have m: "has_token stale_state" and b0: "authCalls stale_state = 0"
    and q0: "apiCalls stale_state = 0"
    by (simp_all add: has_token_def stale_state_def authCalls_def apiCalls_def)
  have warm: "(has_token stale_state \<and> ''stale'' = the (accessToken stale_state)
        \<and> ([]::event list) = [])
     \<or> (\<not> has_token stale_state \<and> auth_reply ?w (authCalls stale_state) = AuthOk ''stale''
        \<and> [] = [TokenExchange (AuthOk ''stale'')])"
    using m by (simp add: stale_state_def)
  have z0: "\<And>c. api_reply ?w (apiCalls stale_state) c = Reply 401 JNull"
    by (simp add: q0 first_401_then_200_def upstream_of_def)
  have z1: "\<And>c. api_reply ?w (apiCalls stale_state + 1) c = Reply 200 (JArr [])"
    by (simp add: q0 first_401_then_200_def upstream_of_def)
  have w0: "auth_reply ?w (authCalls stale_state + length ([]::event list)) = AuthOk ''token-0''"
    by (simp add: b0 first_401_then_200_def upstream_of_def issue_token_def decimal.simps)
  note A = retry_after_single_401 [OF h1 cold y0 x1' y1]
  note B = retry_after_single_401 [OF h1 warm z0 w0 z1]
  from A B h1 n x0 x1 y0 y1 m show ?thesis
    by simp
qed

text \<open>
  C2. An outbound call issues at most one retry (at most two requests, at most one of them
  marked as a retry); a token clear precedes every retried request; a request whose answer
  is not a 401, and every retried request whatever its answer, is the last thing the call
  does, and the caller receives exactly what that answer settles to (the error unchanged
  when it is a failure). The rejection handler returns the error it was given, and leaves
  the state as it is, for every status other than 401 and for every request already marked
  as a retry.
\<close>

theorem at_most_one_retry:
  assumes "\<not> isRetry cfg"
    and "api w cfg s = (res, s')"
  shows "length (filter is_retried_call (new_events s s')) \<le> 1 \<and>
         length (filter is_api_call (new_events s s')) \<le> 2 \<and>
         (\<forall>before c r after. new_events s s' = before @ ApiCall c r # after \<and> isRetry c
             \<longrightarrow> TokenClear \<in> set before) \<and>
         (\<forall>before c r after. new_events s s' = before @ ApiCall c r # after
               \<and> (reply_status r \<noteq> Some 401 \<or> isRetry c)
             \<longrightarrow> after = [] \<and> res = settle w c r) \<and>
         (\<forall>e t. error_status e \<noteq> Some 401
               \<or> (\<exists>c. error_config e = Some c \<and> isRetry c)
             \<longrightarrow> response_rejected w e t = (Inl e, t))"
proof -
  have last: "\<forall>e t. error_status e \<noteq> Some 401
               \<or> (\<exists>c. error_config e = Some c \<and> isRetry c)
             \<longrightarrow> response_rejected w e t = (Inl e, t)"
    by (auto simp: response_rejected_other_status response_rejected_retried)
  from assms have "length (filter is_retried_call (new_events s s')) \<le> 1 \<and>
         length (filter is_api_call (new_events s s')) \<le> 2 \<and>
         (\<forall>before c r after. new_events s s' = before @ ApiCall c r # after \<and> isRetry c
             \<longrightarrow> TokenClear \<in> set before) \<and>
         (\<forall>before c r after. new_events s s' = before @ ApiCall c r # after
               \<and> (reply_status r \<noteq> Some 401 \<or> isRetry c)
             \<longrightarrow> after = [] \<and> res = settle w c r)"
  proof (cases rule: api_run_cases)
    case (acquire_failed pre e)
    then show ?thesis
      by (auto simp: new_events_append Cons_eq_append_conv append_eq_Cons_conv)
  next
    case (settled pre c r)
    then show ?thesis
      by (auto simp: new_events_append Cons_eq_append_conv append_eq_Cons_conv)
  next
    case (reexchange_failed pre c d m e)
    then show ?thesis
      by (auto simp: new_events_append Cons_eq_append_conv append_eq_Cons_conv)
  next
    case (retried pre c d t c2 r2)
    then show ?thesis
      by (auto simp: new_events_append Cons_eq_append_conv append_eq_Cons_conv)
  qed
  with last show ?thesis
    by blast
qed


theorem at_most_one_retry_witness:
  "\<not> isRetry listing_request \<and>
   length (filter is_retried_call (new_events initial_state
     (snd (api always_401 listing_request initial_state)))) \<le> 1 \<and>
   length (filter is_api_call (new_events initial_state
     (snd (api always_401 listing_request initial_state)))) \<le> 2 \<and>
   map reply_status (replies (new_events initial_state
     (snd (api always_401 listing_request initial_state)))) = [Some 401, Some 401] \<and>
   fst (api always_401 listing_request initial_state)
     = Inl (AxiosError (Some 401) JNull ''Request failed with status code 401''
         (Some (listing_request\<lparr>Authorization := Some ''Bearer token-1'', isRetry := True\<rparr>)))"
proof -
  have h1: "\<not> isRetry listing_request"
    by (simp add: listing_request_def new_request_def)
  have h2: "api always_401 listing_request initial_state =
      (fst (api always_401 listing_request initial_state),
       snd (api always_401 listing_request initial_state))"
    by simp
  have st: "map reply_status (replies (new_events initial_state
      (snd (api always_401 listing_request initial_state)))) = [Some 401, Some 401]"
    by (simp add: run_defs always_401_def listing_request_def)
  have r: "fst (api always_401 listing_request initial_state)
      = Inl (AxiosError (Some 401) JNull ''Request failed with status code 401''
          (Some (listing_request\<lparr>Authorization := Some ''Bearer token-1'', isRetry := True\<rparr>)))"
    by (simp add: run_defs always_401_def listing_request_def decimal.simps)
  from at_most_one_retry [OF h1 h2] h1 st r show ?thesis
    by blast
qed


section \<open>The dispatcher rejects unknown tools and invalid search arguments\<close>

lemma callTool_rethrows:
  assumes "callTool_try w request (createRequestContext (name request) s) = (Inl (McpError c m), s1)"
  shows "callTool w request s = (Inl (McpError c m), s1)"
  using assms by (simp add: callTool_def)

text \<open>
  C8. A call-tool request whose tool name is none of \<open>create_customer\<close>,
  \<open>document_types\<close>, \<open>payments_methods\<close>, \<open>search_documentation\<close> ends with the
  protocol-level error \<open>MethodNotFound\<close>, never with a \<open>ToolResponse\<close>, and sends nothing
  upstream.
\<close>

theorem unknown_tool_method_not_found:
  assumes "name request \<notin> {''create_customer'', ''document_types'', ''payments_methods'',
             ''search_documentation''}"
  shows "callTool w request s =
           (Inl (McpError MethodNotFound (''Unknown tool: '' @ name request)),
            createRequestContext (name request) s) \<and>
         events (snd (callTool w request s)) = events s"
proof -
  have "callTool_try w request (createRequestContext (name request) s) =
          (Inl (McpError MethodNotFound (''Unknown tool: '' @ name request)),
           createRequestContext (name request) s)"
    using assms by (simp add: callTool_try_def)
  then have "callTool w request s =
          (Inl (McpError MethodNotFound (''Unknown tool: '' @ name request)),
           createRequestContext (name request) s)"
    by (rule callTool_rethrows)
  then show ?thesis
    by (simp add: createRequestContext_def)
qed

lemma isSearchDocumentationArgs_fields:
  assumes "isSearchDocumentationArgs args"
  shows "member args ''language'' \<in> {JStr ''es'', JStr ''pt''}"
    and "member args ''siteId'' \<in> JStr ` set VALID_SITES"
    and "\<forall>n. member args ''limit'' = JNum n \<longrightarrow> 1 \<le> n \<and> n \<le> 100"
    and "\<exists>q. member args ''query'' = JStr q"
proof -
  from assms have l: "List.member [JStr ''es'', JStr ''pt''] (member args ''language'')"
    and q: "is_string (member args ''query'')"
    and i: "List.member (map JStr VALID_SITES) (member args ''siteId'')"
    and n: "member args ''limit'' = JUndefined \<or> number_in_range (member args ''limit'')"
    by (simp_all add: isSearchDocumentationArgs_def Let_def split: if_splits)
  from l show "member args ''language'' \<in> {JStr ''es'', JStr ''pt''}"
    by simp
  from i show "member args ''siteId'' \<in> JStr ` set VALID_SITES"
    by simp
  from n show "\<forall>n. member args ''limit'' = JNum n \<longrightarrow> 1 \<le> n \<and> n \<le> 100"
    by auto
  from q show "\<exists>q. member args ''query'' = JStr q"
    by (cases "member args ''query''") auto
qed

text \<open>
  C7. A \<open>search_documentation\<close> call whose \<open>language\<close> is not \<open>es\<close> or \<open>pt\<close>, or whose
  \<open>siteId\<close> is not one of the seven site ids, or whose \<open>limit\<close> is a number outside
  \<open>[1, 100]\<close>, ends with the protocol-level error \<open>InvalidParams\<close>, and no token exchange
  and no API request is made: the events of the state are unchanged.
\<close>

theorem invalid_search_arguments_rejected:
  assumes "name request = ''search_documentation''"
    and "member (arguments request) ''language'' \<notin> {JStr ''es'', JStr ''pt''}
       \<or> member (arguments request) ''siteId'' \<notin> JStr ` set VALID_SITES
       \<or> (\<exists>n. member (arguments request) ''limit'' = JNum n \<and> (n < 1 \<or> 100 < n))"
  shows "callTool w request s =
           (Inl (McpError InvalidParams ''Invalid search_documentation arguments''),
            createRequestContext (name request) s) \<and>
         events (snd (callTool w request s)) = events s"
proof -
  have "\<not> isSearchDocumentationArgs (arguments request)"
    using assms(2) isSearchDocumentationArgs_fields [of "arguments request"]
    by (metis not_le)
  then have "callTool_try w request (createRequestContext (name request) s) =
          (Inl (McpError InvalidParams ''Invalid search_documentation arguments''),
           createRequestContext (name request) s)"
    using assms(1) by (simp add: callTool_try_def)
  then have "callTool w request s =
          (Inl (McpError InvalidParams ''Invalid search_documentation arguments''),
           createRequestContext (name request) s)"
    by (rule callTool_rethrows)
  then show ?thesis
    by (simp add: createRequestContext_def)
qed

theorem unknown_tool_method_not_found_witness:
  "''delete_customer'' \<notin> {''create_customer'', ''document_types'', ''payments_methods'',
       ''search_documentation''} \<and>
   callTool always_401 \<lparr>name = ''delete_customer'', arguments = JObj []\<rparr> initial_state =
     (Inl (McpError MethodNotFound ''Unknown tool: delete_customer''),
      \<lparr>accessToken = None, requestCount = 1, events = []\<rparr>)"
  using unknown_tool_method_not_found
    [of "\<lparr>name = ''delete_customer'', arguments = JObj []\<rparr>" always_401 initial_state]
  by (simp add: createRequestContext_def initial_state_def)

theorem invalid_search_arguments_rejected_witness:
  "member (JObj [(''language'', JStr ''es''), (''query'', JStr ''checkout''),
      (''siteId'', JStr ''MLA''), (''limit'', JNum 101)]) ''limit'' = JNum 101 \<and>
   (100::rat) < 101 \<and>
   callTool first_401_then_200
     \<lparr>name = ''search_documentation'',
      arguments = JObj [(''language'', JStr ''es''), (''query'', JStr ''checkout''),
        (''siteId'', JStr ''MLA''), (''limit'', JNum 101)]\<rparr> initial_state =
     (Inl (McpError InvalidParams ''Invalid search_documentation arguments''),
      \<lparr>accessToken = None, requestCount = 1, events = []\<rparr>)"
  using invalid_search_arguments_rejected
    [of "\<lparr>name = ''search_documentation'',
      arguments = JObj [(''language'', JStr ''es''), (''query'', JStr ''checkout''),
        (''siteId'', JStr ''MLA''), (''limit'', JNum 101)]\<rparr>" first_401_then_200 initial_state]
  by (simp add: createRequestContext_def initial_state_def)

section \<open>The handlers swallow failures\<close>










lemmas handler_defs = callTool_def callTool_try_def createRequestContext_def
  handleCreateCustomer_def handleCreateCustomer_try_def create_customer_fallback_def
  handleDocumentTypes_def handleDocumentTypes_try_def handlePaymentsMethods_def
  handlePaymentsMethods_try_def handleSearchDocumentation_def
  handleSearchDocumentation_try_def search_request_def text_response_def error_response_def
  optional_member_def steady_upstream_def unreachable_upstream_def


section \<open>create_customer\<close>

text \<open>
  C4. The dispatcher does not validate the arguments of \<open>create_customer\<close>: a call without
  the required \<open>email\<close> is not rejected with \<open>InvalidParams\<close>; it sends the POST, with an
  absent email, and returns the handler's envelope.
\<close>

theorem create_customer_without_email_reaches_api:
  "callTool (steady_upstream (JObj [(''user_id'', JNum 42)]))
     \<lparr>name = ''create_customer'', arguments = JObj []\<rparr> initial_state =
   (Inr \<lparr>content = [Text ''Customer created successfully with id: 42''], isError = None\<rparr>,
    \<lparr>accessToken = Some ''token-0'', requestCount = 1,
     events = [TokenExchange (AuthOk ''token-0''),
       ApiCall \<lparr>verb = POST, url = ''https://api.mercadopago.com/v1/customers'',
                 params = JUndefined, body = JObj [(''email'', JUndefined)],
                 Authorization = Some ''Bearer token-0'', isRetry = False\<rparr>
               (Reply 200 (JObj [(''user_id'', JNum 42)]))]\<rparr>)"
  by (simp add: handler_defs run_defs decimal.simps)

text \<open>
  C6, as stated, fails: when the POST succeeds with a body that lacks the identifier, the
  handler does not return the fallback text but a confirmation that prints \<open>undefined\<close>.
\<close>

theorem create_customer_malformed_body_counterexample:
  "replies (events (snd (handleCreateCustomer (steady_upstream (JObj []))
      (JObj [(''email'', JStr ''ana@example.com'')]) initial_state))) = [Reply 200 (JObj [])] \<and>
   fst (handleCreateCustomer (steady_upstream (JObj []))
      (JObj [(''email'', JStr ''ana@example.com'')]) initial_state)
     = Inr \<lparr>content = [Text ''Customer created successfully with id: undefined''],
            isError = None\<rparr> \<and>
   fst (handleCreateCustomer (steady_upstream (JObj []))
      (JObj [(''email'', JStr ''ana@example.com'')]) initial_state)
     \<noteq> Inr \<lparr>content = [Text ''No document types found. Try again later.''], isError = None\<rparr>"
  by (simp add: handler_defs run_defs decimal.simps)

text \<open>
  C6, amended. When the API call of \<open>create_customer\<close> fails, or the POST succeeds with a
  body that is \<open>null\<close> or absent, the handler returns the fixed text
  \<open>No document types found. Try again later.\<close>; when the POST succeeds with any other
  body, it returns \<open>Customer created successfully with id: \<close> followed by the printed
  \<open>user_id\<close> of the body, which is \<open>undefined\<close> for a body without it.
\<close>

theorem create_customer_outcomes:
  "(\<forall>e s1. api w (new_request POST ''https://api.mercadopago.com/v1/customers'' JUndefined
        (JObj [(''email'', optional_member args ''email'')])) s = (Inl e, s1) \<longrightarrow>
      handleCreateCustomer w args s =
        (Inr \<lparr>content = [Text ''No document types found. Try again later.''],
              isError = None\<rparr>, s1)) \<and>
   (\<forall>r s1. api w (new_request POST ''https://api.mercadopago.com/v1/customers'' JUndefined
        (JObj [(''email'', optional_member args ''email'')])) s = (Inr r, s1)
        \<and> nullish (data r) \<longrightarrow>
      handleCreateCustomer w args s =
        (Inr \<lparr>content = [Text ''No document types found. Try again later.''],
              isError = None\<rparr>, s1)) \<and>
   (\<forall>r s1. api w (new_request POST ''https://api.mercadopago.com/v1/customers'' JUndefined
        (JObj [(''email'', optional_member args ''email'')])) s = (Inr r, s1)
        \<and> \<not> nullish (data r) \<longrightarrow>
      handleCreateCustomer w args s =
        (Inr \<lparr>content = [Text (''Customer created successfully with id: ''
                @ to_string (number_toString w) (member (data r) ''user_id''))],
              isError = None\<rparr>, s1))"
  by (simp add: handleCreateCustomer_def handleCreateCustomer_try_def
      create_customer_fallback_def text_response_def)

theorem create_customer_outcomes_witness:
  "fst (handleCreateCustomer unreachable_upstream (JObj [(''email'', JStr ''ana@example.com'')])
      initial_state)
     = Inr \<lparr>content = [Text ''No document types found. Try again later.''], isError = None\<rparr> \<and>
   fst (handleCreateCustomer (steady_upstream JNull) (JObj [(''email'', JStr ''ana@example.com'')])
      initial_state)
     = Inr \<lparr>content = [Text ''No document types found. Try again later.''], isError = None\<rparr> \<and>
   fst (handleCreateCustomer (steady_upstream (JObj [(''user_id'', JStr ''1234'')]))
      (JObj [(''email'', JStr ''ana@example.com'')]) initial_state)
     = Inr \<lparr>content = [Text ''Customer created successfully with id: 1234''], isError = None\<rparr>"
proof -
  let ?args = "JObj [(''email'', JStr ''ana@example.com'')]"
  let ?req = "new_request POST ''https://api.mercadopago.com/v1/customers'' JUndefined
        (JObj [(''email'', optional_member ?args ''email'')])"
  obtain e s1 where a: "api unreachable_upstream ?req initial_state = (Inl e, s1)"
    by (simp add: run_defs unreachable_upstream_def)
  obtain s2 where b: "api (steady_upstream JNull) ?req initial_state =
      (Inr \<lparr>status = 200, data = JNull\<rparr>, s2)"
    by (simp add: run_defs steady_upstream_def)
  obtain s3 where c: "api (steady_upstream (JObj [(''user_id'', JStr ''1234'')])) ?req
      initial_state = (Inr \<lparr>status = 200, data = JObj [(''user_id'', JStr ''1234'')]\<rparr>, s3)"
    by (simp add: run_defs steady_upstream_def)
  from create_customer_outcomes [of unreachable_upstream ?args initial_state] a
  have 1: "fst (handleCreateCustomer unreachable_upstream ?args initial_state)
     = Inr \<lparr>content = [Text ''No document types found. Try again later.''], isError = None\<rparr>"
    by simp
  from create_customer_outcomes [of "steady_upstream JNull" ?args initial_state] b
  have 2: "fst (handleCreateCustomer (steady_upstream JNull) ?args initial_state)
     = Inr \<lparr>content = [Text ''No document types found. Try again later.''], isError = None\<rparr>"
    by simp
  from create_customer_outcomes
    [of "steady_upstream (JObj [(''user_id'', JStr ''1234'')])" ?args initial_state] c
  have 3: "fst (handleCreateCustomer (steady_upstream (JObj [(''user_id'', JStr ''1234'')]))
      ?args initial_state)
     = Inr \<lparr>content = [Text ''Customer created successfully with id: 1234''], isError = None\<rparr>"
    by (simp add: steady_upstream_def upstream_of_def)
  from 1 2 3 show ?thesis
    by simp
qed

section \<open>Token reuse\<close>

lemma api_without_401:
  assumes "\<And>n c d. api_reply w n c \<noteq> Reply 401 d" and "\<not> isRetry cfg"
  shows "api w cfg s =
     (case getAccessToken w s of
        (Inl e, s1) \<Rightarrow> (Inl e, s1)
      | (Inr token, s1) \<Rightarrow> dispatchRequest w (authorize token cfg) s1)"
proof (cases "getAccessToken w s")
  case (Pair r s1)
  show ?thesis
  proof (cases r)
    case (Inl e)
    with Pair show ?thesis
      by (simp add: api_first [OF assms(2)])
  next
    case (Inr token)
    define x where "x = api_reply w (apiCalls s1) (authorize token cfg)"
    have d: "dispatchRequest w (authorize token cfg) s1 =
        (settle w (authorize token cfg) x, emit (ApiCall (authorize token cfg) x) s1)"
      by (simp add: dispatchRequest_def x_def Let_def)
    have "reply_status x \<noteq> Some 401"
      using assms(1) [of "apiCalls s1" "authorize token cfg"] by (cases x) (auto simp: x_def)
    then have "\<And>e. settle w (authorize token cfg) x = Inl e \<Longrightarrow> error_status e \<noteq> Some 401"
      by (simp add: settle_error_status)
    with Pair Inr d show ?thesis
      by (simp add: api_first [OF assms(2)] split: sum.splits)
  qed
qed

lemma getAccessToken_token_reused: "token_reused w s (snd (getAccessToken w s))"
  by (auto simp: token_reused_def getAccessToken_def has_token_def emit_def authCalls_def Let_def
      split: auth_outcome.splits)

lemma dispatchRequest_keeps_token:
  "authCalls (snd (dispatchRequest w c s)) = authCalls s \<and>
   accessToken (snd (dispatchRequest w c s)) = accessToken s"
  by (simp add: dispatchRequest_def emit_def authCalls_def Let_def)

lemma api_token_reused:
  assumes "\<And>n c d. api_reply w n c \<noteq> Reply 401 d" and "\<not> isRetry cfg"
  shows "token_reused w s (snd (api w cfg s))"
proof (cases "getAccessToken w s")
  case (Pair r s1)
  have g: "token_reused w s s1"
    using getAccessToken_token_reused [of w s] Pair by simp
  show ?thesis
  proof (cases r)
    case (Inl e)
    with Pair g show ?thesis
      by (simp add: api_without_401 [OF assms])
  next
    case (Inr token)
    with Pair have "snd (api w cfg s) = snd (dispatchRequest w (authorize token cfg) s1)"
      by (simp add: api_without_401 [OF assms])
    with g dispatchRequest_keeps_token [of w "authorize token cfg" s1] show ?thesis
      by (simp add: token_reused_def)
  qed
qed

lemma handleCreateCustomer_state:
  "snd (handleCreateCustomer w args s) =
     snd (api w (new_request POST ''https://api.mercadopago.com/v1/customers'' JUndefined
            (JObj [(''email'', optional_member args ''email'')])) s)"
  by (cases "api w (new_request POST ''https://api.mercadopago.com/v1/customers'' JUndefined
            (JObj [(''email'', optional_member args ''email'')])) s")
    (auto simp: handleCreateCustomer_def handleCreateCustomer_try_def split: sum.splits)

lemma handleDocumentTypes_state:
  "snd (handleDocumentTypes w s) =
     snd (api w (new_request GET ''https://api.mercadopago.com/v1/identification_types''
            JUndefined JUndefined) s)"
  by (cases "api w (new_request GET ''https://api.mercadopago.com/v1/identification_types''
            JUndefined JUndefined) s")
    (auto simp: handleDocumentTypes_def handleDocumentTypes_try_def split: sum.splits)

lemma handlePaymentsMethods_state:
  "snd (handlePaymentsMethods w s) =
     snd (api w (new_request GET ''https://api.mercadopago.com/v1/payment_methods''
            JUndefined JUndefined) s)"
  by (cases "api w (new_request GET ''https://api.mercadopago.com/v1/payment_methods''
            JUndefined JUndefined) s")
    (auto simp: handlePaymentsMethods_def handlePaymentsMethods_try_def split: sum.splits)

lemma handleSearchDocumentation_state:
  "snd (handleSearchDocumentation w args s) = snd (api w (search_request args) s)"
proof (cases "api w (search_request args) s")
  case (Pair r s1)
  show ?thesis
  proof (cases r)
    case (Inl e)
    with Pair show ?thesis
      by (simp add: handleSearchDocumentation_def handleSearchDocumentation_try_def)
  next
    case (Inr response)
    with Pair have "snd (handleSearchDocumentation_try w args s) = s1"
      by (cases "data response")
        (simp_all add: handleSearchDocumentation_try_def split: sum.splits)
    with Pair show ?thesis
      by (cases "handleSearchDocumentation_try w args s")
        (auto simp: handleSearchDocumentation_def split: sum.splits)
  qed
qed

lemma callTool_try_state:
  obtains (rejected) "snd (callTool_try w request s) = s"
  | (called) cfg where "\<not> isRetry cfg" "snd (callTool_try w request s) = snd (api w cfg s)"
proof (cases "name request = ''search_documentation''")
  case True
  show thesis
  proof (cases "isSearchDocumentationArgs (arguments request)")
    case valid: True
    with True have "snd (callTool_try w request s) =
        snd (api w (search_request (as_SearchDocumentationArgs (arguments request))) s)"
      by (simp add: callTool_try_def handleSearchDocumentation_state)
    then show thesis
      by (rule called [rotated]) (simp add: search_request_def new_request_def)
  next
    case False
    with True have "snd (callTool_try w request s) = s"
      by (simp add: callTool_try_def)
    then show thesis
      by (rule rejected)
  qed
next
  case ns: False
  show thesis
  proof (cases "name request = ''payments_methods''")
    case True
    with ns have "snd (callTool_try w request s) =
        snd (api w (new_request GET ''https://api.mercadopago.com/v1/payment_methods''
            JUndefined JUndefined) s)"
      by (simp add: callTool_try_def handlePaymentsMethods_state)
    then show thesis
      by (rule called [rotated]) (simp add: new_request_def)
  next
    case np: False
    show thesis
    proof (cases "name request = ''document_types''")
      case True
      with ns np have "snd (callTool_try w request s) =
          snd (api w (new_request GET ''https://api.mercadopago.com/v1/identification_types''
              JUndefined JUndefined) s)"
        by (simp add: callTool_try_def handleDocumentTypes_state)
      then show thesis
        by (rule called [rotated]) (simp add: new_request_def)
    next
      case nd: False
      show thesis
      proof (cases "name request = ''create_customer''")
        case True
        with ns np nd have "snd (callTool_try w request s) =
            snd (api w (new_request POST ''https://api.mercadopago.com/v1/customers'' JUndefined
              (JObj [(''email'', optional_member (arguments request) ''email'')])) s)"
          by (simp add: callTool_try_def handleCreateCustomer_state)
        then show thesis
          by (rule called [rotated]) (simp add: new_request_def)
      next
        case False
        with ns np nd have "snd (callTool_try w request s) = s"
          by (simp add: callTool_try_def)
        then show thesis
          by (rule rejected)
      qed
    qed
  qed
qed

lemma callTool_snd:
  "snd (callTool w request s) =
     snd (callTool_try w request (createRequestContext (name request) s))"
  by (cases "callTool_try w request (createRequestContext (name request) s)")
    (auto simp: callTool_def split: sum.splits)

lemma callTool_token_reused:
  assumes "\<And>n c d. api_reply w n c \<noteq> Reply 401 d"
  shows "token_reused w s (snd (callTool w request s))"
proof (cases rule: callTool_try_state [of w request "createRequestContext (name request) s"])
  case rejected
  then show ?thesis
    by (simp add: callTool_snd token_reused_def createRequestContext_def authCalls_def)
next
  case (called cfg)
  with api_token_reused [OF assms called(1), of "createRequestContext (name request) s"]
  show ?thesis
    by (simp add: callTool_snd token_reused_def createRequestContext_def authCalls_def
        has_token_def)
qed

text \<open>
  C3, amended. \<open>getAccessToken\<close> returns the cached token, without an exchange, whenever
  the cache holds a token that is not the empty string; it performs the exchange only when
  the cache holds no such token, and caches the token the exchange returns. Consequently,
  when the next exchange succeeds with a non-empty token and the API answers no request with
  a 401, two sequential tool calls issue at most one token exchange in total.
\<close>

theorem token_reuse:
  "(has_token s \<longrightarrow> getAccessToken w s = (Inr (the (accessToken s)), s)) \<and>
   (\<forall>t. \<not> has_token s \<and> auth_reply w (authCalls s) = AuthOk t \<longrightarrow>
      getAccessToken w s =
        (Inr t, (emit (TokenExchange (AuthOk t)) s)\<lparr>accessToken := Some t\<rparr>)) \<and>
   (authCalls (snd (getAccessToken w s)) \<noteq> authCalls s \<longrightarrow> \<not> has_token s) \<and>
   ((\<forall>n c d. api_reply w n c \<noteq> Reply 401 d) \<and>
    (\<exists>t. t \<noteq> [] \<and> auth_reply w (authCalls s) = AuthOk t) \<longrightarrow>
      authCalls (snd (callTool w second (snd (callTool w first s)))) \<le> authCalls s + 1)"
proof (intro conjI allI impI)
  assume "has_token s"
  then show "getAccessToken w s = (Inr (the (accessToken s)), s)"
    by (simp add: getAccessToken_def has_token_def)
next
  fix t
  assume "\<not> has_token s \<and> auth_reply w (authCalls s) = AuthOk t"
  then show "getAccessToken w s =
        (Inr t, (emit (TokenExchange (AuthOk t)) s)\<lparr>accessToken := Some t\<rparr>)"
    by (auto simp: getAccessToken_def has_token_def Let_def)
next
  assume "authCalls (snd (getAccessToken w s)) \<noteq> authCalls s"
  then show "\<not> has_token s"
    by (auto simp: getAccessToken_def has_token_def split: if_splits)
next
  assume a: "(\<forall>n c d. api_reply w n c \<noteq> Reply 401 d) \<and>
    (\<exists>t. t \<noteq> [] \<and> auth_reply w (authCalls s) = AuthOk t)"
  then obtain t where t: "t \<noteq> []" "auth_reply w (authCalls s) = AuthOk t"
    by blast
  from a have n: "\<And>n c d. api_reply w n c \<noteq> Reply 401 d"
    by blast
  define s1 where "s1 = snd (callTool w first s)"
  define s2 where "s2 = snd (callTool w second s1)"
  have r1: "token_reused w s s1"
    unfolding s1_def using n by (rule callTool_token_reused)
  have r2: "token_reused w s1 s2"
    unfolding s2_def using n by (rule callTool_token_reused)
  have "authCalls s2 \<le> authCalls s + 1"
  proof (cases "authCalls s1 = authCalls s")
    case True
    with r2 show ?thesis
      by (auto simp: token_reused_def)
  next
    case False
    with r1 t have "authCalls s1 = authCalls s + 1" "has_token s1"
      by (auto simp: token_reused_def has_token_def)
    with r2 show ?thesis
      by (auto simp: token_reused_def)
  qed
  then show "authCalls (snd (callTool w second (snd (callTool w first s)))) \<le> authCalls s + 1"
    by (simp add: s1_def s2_def)
qed

lemmas handler_defs2 = callTool_def callTool_try_def createRequestContext_def
  handleDocumentTypes_def handleDocumentTypes_try_def text_response_def data_map_def
  document_types_call_def

text \<open>
  C3, as stated, fails. After one successful exchange has cached a token, two sequential
  \<open>document_types\<close> calls that each meet an expired token (a 401, then a 200) issue two
  further exchanges; and after a successful exchange that returned the empty string, each
  of two calls exchanges again, although the cache holds the string.
\<close>

theorem token_reuse_counterexample:
  "has_token (snd (getAccessToken expiring_tokens initial_state)) \<and>
   authCalls (snd (getAccessToken expiring_tokens initial_state)) = 1 \<and>
   authCalls (snd (callTool expiring_tokens document_types_call
     (snd (callTool expiring_tokens document_types_call
       (snd (getAccessToken expiring_tokens initial_state)))))) = 3 \<and>
   accessToken (snd (getAccessToken empty_token_upstream initial_state)) = Some [] \<and>
   authCalls (snd (getAccessToken empty_token_upstream initial_state)) = 1 \<and>
   authCalls (snd (callTool empty_token_upstream document_types_call
     (snd (callTool empty_token_upstream document_types_call
       (snd (getAccessToken empty_token_upstream initial_state)))))) = 3"
  by (simp add: handler_defs2 run_defs has_token_def expiring_tokens_def
      empty_token_upstream_def decimal.simps)

theorem token_reuse_witness:
  "has_token (snd (getAccessToken (steady_upstream (JArr [])) initial_state)) \<and>
   getAccessToken (steady_upstream (JArr []))
       (snd (getAccessToken (steady_upstream (JArr [])) initial_state)) =
     (Inr ''token-0'', snd (getAccessToken (steady_upstream (JArr [])) initial_state)) \<and>
   \<not> has_token initial_state \<and>
   auth_reply (steady_upstream (JArr [])) (authCalls initial_state) = AuthOk ''token-0'' \<and>
   getAccessToken (steady_upstream (JArr [])) initial_state =
     (Inr ''token-0'',
      \<lparr>accessToken = Some ''token-0'', requestCount = 0,
       events = [TokenExchange (AuthOk ''token-0'')]\<rparr>) \<and>
   authCalls (snd (callTool (steady_upstream (JArr [])) document_types_call
     (snd (callTool (steady_upstream (JArr [])) document_types_call initial_state))))
     \<le> authCalls initial_state + 1"
proof -
  let ?w = "steady_upstream (JArr [])"
  let ?s1 = "snd (getAccessToken ?w initial_state)"
  have s1: "?s1 = \<lparr>accessToken = Some ''token-0'', requestCount = 0,
       events = [TokenExchange (AuthOk ''token-0'')]\<rparr>"
    by (simp add: run_defs steady_upstream_def decimal.simps)
  have h1: "has_token ?s1"
    by (simp add: s1 has_token_def)
  have h2: "\<not> has_token initial_state"
    by (simp add: has_token_def initial_state_def)
  have h3: "auth_reply ?w (authCalls initial_state) = AuthOk ''token-0''"
    by (simp add: run_defs steady_upstream_def decimal.simps)
  have h4: "\<forall>n c d. api_reply ?w n c \<noteq> Reply 401 d"
    by (simp add: steady_upstream_def upstream_of_def)
  have h5: "\<exists>t. t \<noteq> [] \<and> auth_reply ?w (authCalls initial_state) = AuthOk t"
    using h3 by simp
  have a: "getAccessToken ?w ?s1 = (Inr (the (accessToken ?s1)), ?s1)"
    using token_reuse [of ?s1 ?w] h1 by blast
  have b: "getAccessToken ?w initial_state =
      (Inr ''token-0'', (emit (TokenExchange (AuthOk ''token-0'')) initial_state)
         \<lparr>accessToken := Some ''token-0''\<rparr>)"
    using token_reuse [of initial_state ?w] h2 h3 by blast
  have c: "authCalls (snd (callTool ?w document_types_call
      (snd (callTool ?w document_types_call initial_state)))) \<le> authCalls initial_state + 1"
    using token_reuse [of initial_state ?w document_types_call document_types_call] h4 h5
    by blast
  from a have a': "getAccessToken ?w ?s1 = (Inr ''token-0'', ?s1)"
    by (simp add: s1)
  from b have b': "getAccessToken ?w initial_state =
     (Inr ''token-0'',
      \<lparr>accessToken = Some ''token-0'', requestCount = 0,
       events = [TokenExchange (AuthOk ''token-0'')]\<rparr>)"
    by (simp add: emit_def initial_state_def)
  from h1 a' h2 h3 b' c show ?thesis
    by (intro conjI)
qed

section \<open>The search digest\<close>

text \<open>
  Where no result is skipped, the digest of the handler is the one the specification
  describes.
\<close>

lemma map_throwing_Inr:
  "map_throwing f xs = Inr ys \<Longrightarrow> map f xs = map Inr ys"
proof (induction xs arbitrary: ys)
  case Nil
  then show ?case by simp
next
  case (Cons x xs)
  then show ?case
    by (auto split: sum.splits)
qed

lemma spec_blocks_without_skips:
  assumes "map (render_result num args) results = map Inr blocks" and "None \<notin> set blocks"
  shows "spec_blocks num args results = map the blocks"
  using assms
proof (induction results arbitrary: blocks)
  case Nil
  then show ?case by (simp add: spec_blocks_def)
next
  case (Cons r rs)
  then obtain b bs where b: "blocks = b # bs"
    by (cases blocks) auto
  with Cons.prems obtain t where t: "b = Some t"
    by (cases b) auto
  from Cons.prems b have "spec_blocks num args rs = map the bs"
    by (intro Cons.IH) auto
  with Cons.prems b t show ?case
    by (simp add: spec_blocks_def)
qed

lemma join_nullable_without_skips:
  "None \<notin> set blocks \<Longrightarrow> join_nullable sep blocks = join sep (map the blocks)"
proof -
  assume "None \<notin> set blocks"
  then have "map (\<lambda>b. case b of None \<Rightarrow> [] | Some t \<Rightarrow> t) blocks = map the blocks"
    by (induction blocks) (auto split: option.splits)
  then show ?thesis
    unfolding join_nullable_def by (rule arg_cong)
qed

lemma digest_agrees_without_skips:
  assumes "map_throwing (render_result num args) results = Inr blocks"
    and "None \<notin> set blocks"
  shows "join_nullable rule_sep blocks = join rule_sep (spec_blocks num args results)"
  using assms
  by (simp add: join_nullable_without_skips spec_blocks_without_skips map_throwing_Inr)

text \<open>
  C9. For the three sample results the handler prints \<open>Untitled\<close> for the missing title
  and \<open>No description available\<close> for the missing content, but the result with neither,
  which the callback returns as \<open>null\<close> in order to skip it, is not left out of the
  joined blocks: \<open>join\<close> prints it as an empty block, so two horizontal rules follow each
  other where the specification has one.
\<close>

theorem skipped_result_leaves_empty_block:
  "fst (handleSearchDocumentation (steady_upstream (JArr sample_results))
          sample_search_args initial_state) =
     Inr \<lparr>content = [Text
        (''# Search Results for '' @ dquote @ ''checkout'' @ dquote
         @ ''\<newline>Showing 3 results\<newline>\<newline>''
         @ ''## Untitled\<newline>Accept payments\<newline>\<newline>'' @ link_sign
         @ '' [Read more](https://www.mercadopago.com.ar/developers/es/guides/checkout-pro)''
         @ ''\<newline>\<newline>Score: 0\<newline>''
         @ ''\<newline>\<newline>---\<newline>\<newline>''
         @ ''\<newline>\<newline>---\<newline>\<newline>''
         @ ''## Checkout API\<newline>No description available\<newline>\<newline>'' @ link_sign
         @ '' [Read more](https://www.mercadopago.com.ar/developers/es/guides/checkout-api)''
         @ ''\<newline>\<newline>Score: 0\<newline>'')], isError = None\<rparr> \<and>
   spec_search_markdown print_number sample_search_args sample_results =
        ''# Search Results for '' @ dquote @ ''checkout'' @ dquote
         @ ''\<newline>Showing 3 results\<newline>\<newline>''
         @ ''## Untitled\<newline>Accept payments\<newline>\<newline>'' @ link_sign
         @ '' [Read more](https://www.mercadopago.com.ar/developers/es/guides/checkout-pro)''
         @ ''\<newline>\<newline>Score: 0\<newline>''
         @ ''\<newline>\<newline>---\<newline>\<newline>''
         @ ''## Checkout API\<newline>No description available\<newline>\<newline>'' @ link_sign
         @ '' [Read more](https://www.mercadopago.com.ar/developers/es/guides/checkout-api)''
         @ ''\<newline>\<newline>Score: 0\<newline>''"
  by (simp add: handleSearchDocumentation_def handleSearchDocumentation_try_def
      search_request_def run_defs steady_upstream_def sample_results_def sample_search_args_def
      render_result_def js_or_def site_domain_def SITE_DOMAINS_def buildDocumentationUrl_def
      decimal.simps text_response_def join_nullable_def rule_sep_def
      spec_search_markdown_def spec_blocks_def)

end
